theory Spec2Isabelle
  imports Main "HOL-Library.Char_ord" "HOL-Library.List_Lexorder"
begin

section \<open>Python values, dictionaries and exceptions\<close>

text \<open>
  The scraper of \<^verbatim>\<open>scap.py\<close> passes every extracted record around as a Python
  dictionary with string keys. A dictionary keeps its keys in insertion order, and that
  order is visible (in \<^verbatim>\<open>str(d)\<close> and in \<^verbatim>\<open>d.items()\<close>), so a dictionary is an
  association list with distinct keys. The values stored by the extractor are strings and
  integers.
\<close>

datatype pyval = PStr string | PInt int

type_synonym pydict = "(string \<times> pyval) list"

text \<open>
  The exporter writes \<^verbatim>\<open>str(d)\<close> of a dictionary into a column. The rendered text is
  kept as the dictionary it renders (\<open>DictStr d\<close>): Python's rendering of a dictionary of
  strings and integers determines the dictionary.
\<close>

datatype colval = Val pyval | DictStr pydict

type_synonym row = "(string \<times> colval) list"

datatype exn =
    ValueError
  | UnboundLocalError string
  | TypeError
  | OSError
  | HTTPError
  | ExportException exn

text \<open>A local variable of a Python function: unbound until its first assignment.\<close>

datatype 'a var = Unbound | Bound 'a

text \<open>\<^verbatim>\<open>d.get(k, default)\<close>, \<^verbatim>\<open>d[k] = v\<close> and \<^verbatim>\<open>d.update(other)\<close>.\<close>

definition dict_get :: "(string \<times> 'v) list \<Rightarrow> string \<Rightarrow> 'v \<Rightarrow> 'v" where
  "dict_get d k dflt = (case map_of d k of None \<Rightarrow> dflt | Some v \<Rightarrow> v)"

fun dict_set :: "(string \<times> 'v) list \<Rightarrow> string \<Rightarrow> 'v \<Rightarrow> (string \<times> 'v) list" where
  "dict_set [] k v = [(k, v)]"
| "dict_set ((k', v') # d) k v = (if k' = k then (k, v) # d else (k', v') # dict_set d k v)"

definition dict_update :: "(string \<times> 'v) list \<Rightarrow> (string \<times> 'v) list \<Rightarrow> (string \<times> 'v) list" where
  "dict_update d other = fold (\<lambda>(k, v) acc. dict_set acc k v) other d"

definition has_key :: "(string \<times> 'v) list \<Rightarrow> string \<Rightarrow> bool" where
  "has_key d k = (k \<in> set (map fst d))"

text \<open>Truth value of a Python object, as \<^verbatim>\<open>if x\<close>, \<^verbatim>\<open>not x\<close> and \<^verbatim>\<open>any\<close> read it.\<close>

fun truthy :: "pyval \<Rightarrow> bool" where
  "truthy (PStr s) = (s \<noteq> [])"
| "truthy (PInt i) = (i \<noteq> 0)"

text \<open>
  \<^verbatim>\<open>d.get(v, default)\<close> where the key \<open>v\<close> is itself a value read from a record: every key
  of a record is a string, so an integer key finds nothing.
\<close>

fun dict_get_val :: "pydict \<Rightarrow> pyval \<Rightarrow> pyval \<Rightarrow> pyval" where
  "dict_get_val d (PStr k) dflt = dict_get d k dflt"
| "dict_get_val d (PInt i) dflt = dflt"

text \<open>\<^verbatim>\<open>x[:n]\<close>: a prefix of a string; an integer is not subscriptable.\<close>

fun slice_to :: "nat \<Rightarrow> pyval \<Rightarrow> exn + pyval" where
  "slice_to n (PStr s) = Inr (PStr (take n s))"
| "slice_to n (PInt i) = Inl TypeError"

text \<open>The warnings the code logs (\<^verbatim>\<open>logger.warning\<close>), in the order they are logged.\<close>

datatype warning =
    Error_parsing_table nat exn
  | No_data_to_export
  | No_data_collected

section \<open>Text\<close>

text \<open>
  A Python string is a sequence of code points. The model reads a \<^typ>\<open>string\<close> as the code
  points U+0000 .. U+00FF; documents with characters beyond U+00FF are outside the
  model. The character classes below are those of Python's \<^verbatim>\<open>re\<close> module and of
  \<^verbatim>\<open>str.strip\<close> on this range.
\<close>

definition code :: "char \<Rightarrow> nat" where
  "code c = of_char c"

text \<open>\<^verbatim>\<open>\s\<close> and the characters \<^verbatim>\<open>strip()\<close> removes.\<close>

definition is_space :: "char \<Rightarrow> bool" where
  "is_space c = (code c \<in> set [9, 10, 11, 12, 13, 28, 29, 30, 31, 32, 133, 160])"

text \<open>\<^verbatim>\<open>\d\<close>: the only decimal digits below U+0100 are the ASCII digits.\<close>

definition is_digit :: "char \<Rightarrow> bool" where
  "is_digit c = (48 \<le> code c \<and> code c \<le> 57)"

text \<open>\<^verbatim>\<open>[a-zA-Z]\<close>\<close>

definition is_ascii_letter :: "char \<Rightarrow> bool" where
  "is_ascii_letter c = ((65 \<le> code c \<and> code c \<le> 90) \<or> (97 \<le> code c \<and> code c \<le> 122))"

text \<open>
  \<^verbatim>\<open>\w\<close>: alphanumeric or underscore. Below U+0100 the alphanumeric characters are the
  ASCII letters and digits, the ordinal indicators and the micro sign (AA, BA, B5), the
  superscript digits (B2, B3, B9), the vulgar fractions (BC .. BE) and the letters
  C0 .. FF without the multiplication and division signs (D7, F7).
\<close>

definition is_word :: "char \<Rightarrow> bool" where
  "is_word c =
     (is_ascii_letter c \<or> is_digit c \<or> code c = 95
      \<or> code c \<in> set [170, 178, 179, 181, 185, 186, 188, 189, 190]
      \<or> (192 \<le> code c \<and> code c \<noteq> 215 \<and> code c \<noteq> 247))"

text \<open>\<^verbatim>\<open>[\x00-\x1f\x7f-\x9f]\<close>\<close>

definition is_control :: "char \<Rightarrow> bool" where
  "is_control c = (code c \<le> 31 \<or> (127 \<le> code c \<and> code c \<le> 159))"

definition strip :: "string \<Rightarrow> string" where
  "strip s = rev (dropWhile is_space (rev (dropWhile is_space s)))"

subsection \<open>Decimal rendering\<close>

definition digit_char :: "nat \<Rightarrow> char" where
  "digit_char d = ''0123456789'' ! d"

function str_nat :: "nat \<Rightarrow> string" where
  "str_nat n = (if n < 10 then [digit_char n] else str_nat (n div 10) @ [digit_char (n mod 10)])"
  by pat_completeness auto
termination
  by (relation "measure id") auto

text \<open>The format \<^verbatim>\<open>{x:04d}\<close> for \<open>x \<ge> 0\<close>: zero-padded to width 4.\<close>

definition format_04d :: "nat \<Rightarrow> string" where
  "format_04d n = replicate (4 - length (str_nat n)) (CHR ''0'') @ str_nat n"

subsection \<open>The regular expressions of the source\<close>

text \<open>
  The patterns of the source are sequences of three kinds of items: a character class
  repeated greedily (\<^verbatim>\<open>\d+\<close>, \<^verbatim>\<open>\s*\<close>, \<^verbatim>\<open>v?\<close>, \<^verbatim>\<open>\d{4}\<close>, \<^verbatim>\<open>[a-zA-Z]{2,}\<close>, a single
  class), an alternation of literal strings (a literal is an alternation of one), and the
  word boundary \<^verbatim>\<open>\b\<close>. None of them has a capturing group, so \<^verbatim>\<open>re.findall\<close> returns the
  matched texts.
\<close>

datatype atom =
    Class "char \<Rightarrow> bool" nat "nat option"
  | Literals "string list"
  | WordBoundary

type_synonym regex = "atom list"

definition is_word_opt :: "char option \<Rightarrow> bool" where
  "is_word_opt c = (case c of None \<Rightarrow> False | Some x \<Rightarrow> is_word x)"

definition first_char :: "string \<Rightarrow> char option" where
  "first_char s = (case s of [] \<Rightarrow> None | c # _ \<Rightarrow> Some c)"

text \<open>
  The lengths an item can match at the start of \<open>s\<close>, where \<open>prev\<close> is the character in front of
  \<open>s\<close>, in the order the backtracking matcher tries them: a greedy repetition tries the
  longest run first, an alternation tries its branches from left to right.
\<close>

fun atom_matches :: "atom \<Rightarrow> char option \<Rightarrow> string \<Rightarrow> nat list" where
  "atom_matches (Class p lo hi) prev s =
     (let n = length (takeWhile p s);
          m = (case hi of None \<Rightarrow> n | Some h \<Rightarrow> min n h)
      in if m < lo then [] else rev [lo ..< Suc m])"
| "atom_matches (Literals ls) prev s =
     map length (filter (\<lambda>l. take (length l) s = l) ls)"
| "atom_matches WordBoundary prev s =
     (if is_word_opt prev \<noteq> is_word_opt (first_char s) then [0] else [])"

definition prev_after :: "char option \<Rightarrow> string \<Rightarrow> nat \<Rightarrow> char option" where
  "prev_after prev s k = (if k = 0 then prev else Some (s ! (k - 1)))"

text \<open>All lengths the whole pattern can match at the start of \<open>s\<close>, in priority order.\<close>

primrec match_lengths :: "regex \<Rightarrow> char option \<Rightarrow> string \<Rightarrow> nat list" where
  "match_lengths [] prev s = [0]"
| "match_lengths (a # as) prev s =
     concat (map (\<lambda>k. map (\<lambda>m. k + m) (match_lengths as (prev_after prev s k) (drop k s)))
                 (atom_matches a prev s))"

definition re_match :: "regex \<Rightarrow> char option \<Rightarrow> string \<Rightarrow> nat option" where
  "re_match r prev s = (case match_lengths r prev s of [] \<Rightarrow> None | k # _ \<Rightarrow> Some k)"

text \<open>
  \<^verbatim>\<open>re.findall\<close> and \<^verbatim>\<open>re.sub\<close> scan from left to right and continue after each match.
  Every pattern of the source consumes at least one character (\<open>source_patterns_consume\<close>
  below), so a match is never empty and the scan needs no rule for empty matches.
\<close>

fun findall_from :: "regex \<Rightarrow> char option \<Rightarrow> string \<Rightarrow> string list" where
  "findall_from r prev [] = []"
| "findall_from r prev (c # cs) =
     (case re_match r prev (c # cs) of
        Some (Suc k) \<Rightarrow> take (Suc k) (c # cs) # findall_from r (Some ((c # cs) ! k)) (drop k cs)
      | _ \<Rightarrow> findall_from r (Some c) cs)"

definition findall :: "regex \<Rightarrow> string \<Rightarrow> string list" where
  "findall r s = findall_from r None s"

fun sub_from :: "regex \<Rightarrow> string \<Rightarrow> char option \<Rightarrow> string \<Rightarrow> string" where
  "sub_from r repl prev [] = []"
| "sub_from r repl prev (c # cs) =
     (case re_match r prev (c # cs) of
        Some (Suc k) \<Rightarrow> repl @ sub_from r repl (Some ((c # cs) ! k)) (drop k cs)
      | _ \<Rightarrow> c # sub_from r repl (Some c) cs)"

definition re_sub :: "regex \<Rightarrow> string \<Rightarrow> string \<Rightarrow> string" where
  "re_sub r repl s = sub_from r repl None s"

text \<open>The least number of characters an item consumes.\<close>

fun atom_min :: "atom \<Rightarrow> nat" where
  "atom_min (Class p lo hi) = lo"
| "atom_min (Literals ls) = (if [] \<in> set ls then 0 else 1)"
| "atom_min WordBoundary = 0"

definition digits1 :: atom where
  "digits1 = Class is_digit 1 None"

definition dot :: atom where
  "dot = Literals [''.'']"

text \<open>The patterns of \<^verbatim>\<open>_clean_text\<close>, in the order they are applied.\<close>

definition whitespace_run :: regex where
  "whitespace_run = [Class is_space 1 None]"

definition control_char :: regex where
  "control_char = [Class is_control 1 (Some 1)]"

definition citation_marker :: regex where
  "citation_marker = [Literals [''[''], digits1, Literals ['']'']]"

definition spaced_period :: regex where
  "spaced_period = [Class is_space 0 None, dot, Class is_space 0 None]"

text \<open>The pattern \<^verbatim>\<open>\b[a-zA-Z]{2,}\b\<close> of \<^verbatim>\<open>_is_valid_content\<close>.\<close>

definition alphabetic_word :: regex where
  "alphabetic_word = [WordBoundary, Class is_ascii_letter 2 None, WordBoundary]"

text \<open>\<^verbatim>\<open>version_patterns\<close> of \<^verbatim>\<open>_extract_version_information\<close>.\<close>

definition month_names :: "string list" where
  "month_names = [''January'', ''February'', ''March'', ''April'', ''May'', ''June'', ''July'',
     ''August'', ''September'', ''October'', ''November'', ''December'']"

definition version_patterns :: "regex list" where
  "version_patterns =
     [[WordBoundary, digits1, dot, digits1, dot, digits1, WordBoundary],
      [WordBoundary, digits1, dot, digits1, WordBoundary],
      [WordBoundary, Class (\<lambda>c. c = CHR ''v'') 0 (Some 1), digits1, dot, digits1, dot, digits1,
         Class is_ascii_letter 0 (Some 1), WordBoundary],
      [WordBoundary, Class is_digit 4 (Some 4), Literals [''-''], Class is_digit 2 (Some 2),
         Literals [''-''], Class is_digit 2 (Some 2), WordBoundary],
      [WordBoundary, Literals month_names, Class is_space 1 None, Class is_digit 4 (Some 4),
         WordBoundary]]"

section \<open>Configuration\<close>

record config =
  extract_tables :: bool
  extract_lists :: bool
  extract_sections :: bool
  min_content_length :: nat

definition SCRAPING_CONFIG :: config where
  "SCRAPING_CONFIG = \<lparr>extract_tables = True, extract_lists = True, extract_sections = True,
     min_content_length = 5\<rparr>"

section \<open>StructuredDataParser\<close>

definition clean_text :: "string \<Rightarrow> string" where
  "clean_text text =
     (if text = [] then []
      else let cleaned = re_sub whitespace_run '' '' (strip text);
               cleaned = re_sub control_char [] cleaned;
               cleaned = re_sub citation_marker [] cleaned;
               cleaned = re_sub spaced_period ''. '' cleaned
           in strip cleaned)"

definition is_valid_content :: "string \<Rightarrow> nat option \<Rightarrow> bool" where
  "is_valid_content text min_length =
     (let min_length = (case min_length of None \<Rightarrow> min_content_length SCRAPING_CONFIG | Some m \<Rightarrow> m)
      in if text = [] \<or> length text < min_length then False
         else let word_count = length (findall alphabetic_word text)
              in word_count \<ge> 1)"


subsection \<open>The parsed document\<close>

text \<open>
  BeautifulSoup turns the markup into a tree of tags and text nodes; the root is the
  \<^verbatim>\<open>BeautifulSoup\<close> object, itself a tag (named \<^verbatim>\<open>[document]\<close>). A tag has a name, a
  dictionary of attributes and a list of children.
\<close>

datatype node = Tag string "(string \<times> string) list" "node list" | Text string

text \<open>\<^verbatim>\<open>.name\<close>: the name of a tag, \<^verbatim>\<open>None\<close> for a text node.\<close>

fun node_name :: "node \<Rightarrow> string option" where
  "node_name (Tag n a cs) = Some n"
| "node_name (Text s) = None"

text \<open>The name of a node that is known to be a tag (an element \<^verbatim>\<open>find_all\<close> returned).\<close>

fun tag_name :: "node \<Rightarrow> string" where
  "tag_name (Tag n a cs) = n"
| "tag_name (Text s) = []"

fun contents :: "node \<Rightarrow> node list" where
  "contents (Tag n a cs) = cs"
| "contents (Text s) = []"

text \<open>
  The nodes of a forest in document order, each with the siblings that follow it
  (\<^verbatim>\<open>.next_sibling\<close>, repeated).
\<close>

fun walk :: "node list \<Rightarrow> (node \<times> node list) list" where
  "walk [] = []"
| "walk (Text s # rest) = (Text s, rest) # walk rest"
| "walk (Tag n a cs # rest) = (Tag n a cs, rest) # walk cs @ walk rest"

definition descendants :: "node \<Rightarrow> node list" where
  "descendants t = map fst (walk (contents t))"

definition named :: "string list \<Rightarrow> node \<Rightarrow> bool" where
  "named names n = (case node_name n of None \<Rightarrow> False | Some x \<Rightarrow> x \<in> set names)"

text \<open>\<^verbatim>\<open>find_all(names)\<close>: the descendant tags with one of the names, in document order.\<close>

definition find_all :: "string list \<Rightarrow> node \<Rightarrow> node list" where
  "find_all names t = filter (named names) (descendants t)"

text \<open>\<^verbatim>\<open>find(name)\<close>: the first of them, or \<^verbatim>\<open>None\<close>.\<close>

definition find_first :: "string \<Rightarrow> node \<Rightarrow> node option" where
  "find_first name t = (case find_all [name] t of [] \<Rightarrow> None | x # _ \<Rightarrow> Some x)"

text \<open>\<^verbatim>\<open>get_text()\<close>: the text nodes below a tag, concatenated; a text node gives itself.\<close>

fun text_of :: "node \<Rightarrow> string" where
  "text_of (Text s) = s"
| "text_of (Tag n a cs) = []"

fun get_text :: "node \<Rightarrow> string" where
  "get_text (Text s) = s"
| "get_text (Tag n a cs) = concat (map text_of (descendants (Tag n a cs)))"

text \<open>
  \<^verbatim>\<open>==\<close> on nodes: two tags are equal when their names, their attribute dictionaries and
  their children are; two text nodes when their strings are. It does not compare
  identity: a row equal in markup to another row is equal to it.
\<close>

fun node_eq :: "node \<Rightarrow> node \<Rightarrow> bool" where
  "node_eq (Text s) (Text t) = (s = t)"
| "node_eq (Tag n a cs) (Tag m b ds) =
     (n = m \<and> set a = set b \<and> length cs = length ds \<and> list_all2 node_eq cs ds)"
| "node_eq (Text s) (Tag m b ds) = False"
| "node_eq (Tag n a cs) (Text t) = False"

text \<open>Truth value of a node: a tag is always true, a text node is a string.\<close>

fun node_truthy :: "node \<Rightarrow> bool" where
  "node_truthy (Tag n a cs) = True"
| "node_truthy (Text s) = (s \<noteq> [])"

record parser =
  soup :: node
  url :: string
  domain :: string

subsection \<open>Tables\<close>

definition cell_text :: "node \<Rightarrow> string" where
  "cell_text n = clean_text (get_text n)"

text \<open>The column name of the \<open>i\<close>-th cell of a row.\<close>

definition col_name :: "string list \<Rightarrow> nat \<Rightarrow> string" where
  "col_name headers i =
     (if i < length headers
      then (if headers ! i \<noteq> [] then headers ! i else ''column_'' @ str_nat (i + 1))
      else ''column_'' @ str_nat (i + 1))"

definition add_cell :: "string list \<Rightarrow> nat \<times> node \<Rightarrow> pydict \<Rightarrow> pydict" where
  "add_cell headers ic record =
     (let t = cell_text (snd ic)
      in if is_valid_content t None then dict_set record (col_name headers (fst ic)) (PStr t) else record)"

definition row_record :: "parser \<Rightarrow> string \<Rightarrow> string list \<Rightarrow> nat \<Rightarrow> node list \<Rightarrow> pydict" where
  "row_record p table_context headers row_idx cells =
     fold (add_cell headers) (enumerate 0 cells)
       [(''data_type'', PStr ''table_data''),
        (''source_url'', PStr (url p)),
        (''table_context'', PStr table_context),
        (''row_index'', PInt (int row_idx)),
        (''domain'', PStr (domain p))]"

definition data_fields :: "pydict \<Rightarrow> pydict" where
  "data_fields record =
     filter (\<lambda>(k, v). k \<notin> set [''data_type'', ''source_url'', ''table_context'', ''row_index'', ''domain''])
       record"

text \<open>
  The loop over the rows of one table. \<open>first_row\<close> is the local variable of that name, which
  the loop reads in \<^verbatim>\<open>row == first_row\<close>; reading it while it is unbound raises. The
  result is the records appended to \<^verbatim>\<open>table_data\<close> and the exception that ended the loop,
  if any.
\<close>

fun data_rows_loop ::
  "parser \<Rightarrow> string \<Rightarrow> string list \<Rightarrow> node option var \<Rightarrow> (nat \<times> node) list \<Rightarrow> pydict list \<times> exn option"
where
  "data_rows_loop p table_context headers first_row [] = ([], None)"
| "data_rows_loop p table_context headers Unbound ((row_idx, row) # rest) =
     ([], Some (UnboundLocalError ''first_row''))"
| "data_rows_loop p table_context headers (Bound first_row) ((row_idx, row) # rest) =
     (if (case first_row of None \<Rightarrow> False | Some fr \<Rightarrow> node_eq row fr)
      then data_rows_loop p table_context headers (Bound first_row) rest
      else let cells = find_all [''td'', ''th''] row
           in if cells = [] then data_rows_loop p table_context headers (Bound first_row) rest
              else let record = row_record p table_context headers row_idx cells;
                       later = data_rows_loop p table_context headers (Bound first_row) rest
                   in if list_ex truthy (map snd (data_fields record))
                      then (record # fst later, snd later)
                      else later)"

text \<open>\<^verbatim>\<open>max\<close> of a non-empty sequence of cell counts.\<close>

definition max_of :: "nat list \<Rightarrow> nat" where
  "max_of ns = fold max ns 0"

text \<open>
  The body of the \<^verbatim>\<open>try\<close> for one table, up to the row loop: the context label, the
  headers, and the value of \<open>first_row\<close>, which is assigned only when the \<^verbatim>\<open>thead\<close> gave no
  header.
\<close>

definition table_context_of :: "nat \<Rightarrow> node \<Rightarrow> string" where
  "table_context_of table_idx table =
     (case find_first ''caption'' table of
        Some caption \<Rightarrow> cell_text caption
      | None \<Rightarrow> ''Table_'' @ str_nat (table_idx + 1))"

definition thead_headers :: "node \<Rightarrow> string list" where
  "thead_headers table =
     (case find_first ''thead'' table of
        Some header_row \<Rightarrow> map cell_text (find_all [''th'', ''td''] header_row)
      | None \<Rightarrow> [])"

definition first_row_headers :: "node option \<Rightarrow> string list" where
  "first_row_headers first_row =
     (case first_row of
        Some r \<Rightarrow> map cell_text (find_all [''th'', ''td''] r)
      | None \<Rightarrow> [])"

definition default_headers :: "node \<Rightarrow> string list" where
  "default_headers table =
     (let max_cols = (if find_all [''tr''] table \<noteq> []
                      then max_of (map (\<lambda>row. length (find_all [''td'', ''th''] row)) (find_all [''tr''] table))
                      else 0)
      in map (\<lambda>i. ''Column_'' @ str_nat (i + 1)) [0 ..< max_cols])"

definition extract_table ::
  "parser \<Rightarrow> node option var \<Rightarrow> nat \<Rightarrow> node \<Rightarrow> (pydict list \<times> exn option) \<times> node option var"
where
  "extract_table p first_row table_idx table =
     (let table_context = table_context_of table_idx table;
          headers = thead_headers table;
          first_row = (if headers = [] then Bound (find_first ''tr'' table) else first_row);
          headers = (if headers = [] then first_row_headers (find_first ''tr'' table) else headers);
          headers = (if headers = [] then default_headers table else headers);
          rows = (case find_first ''tbody'' table of Some tbody \<Rightarrow> tbody | None \<Rightarrow> table);
          data_rows = find_all [''tr''] rows
      in (data_rows_loop p table_context headers first_row (enumerate 0 data_rows), first_row))"

text \<open>
  The loop over the tables. Its state is \<^verbatim>\<open>table_data\<close>, the variable \<open>first_row\<close>, which
  lives on from one table to the next, and the warnings logged by the handler
  \<^verbatim>\<open>except Exception\<close>.
\<close>

record tables_state =
  table_data :: "pydict list"
  first_row_var :: "node option var"
  warnings :: "warning list"

definition table_step :: "parser \<Rightarrow> tables_state \<Rightarrow> nat \<times> node \<Rightarrow> tables_state" where
  "table_step p st it =
     (let ((records, raised), first_row) = extract_table p (first_row_var st) (fst it) (snd it)
      in \<lparr>table_data = table_data st @ records,
          first_row_var = first_row,
          warnings = warnings st @ (case raised of None \<Rightarrow> [] | Some e \<Rightarrow> [Error_parsing_table (fst it) e])\<rparr>)"

fun tables_loop :: "parser \<Rightarrow> tables_state \<Rightarrow> (nat \<times> node) list \<Rightarrow> tables_state" where
  "tables_loop p st [] = st"
| "tables_loop p st (it # rest) = tables_loop p (table_step p st it) rest"

definition extract_structured_tables :: "parser \<Rightarrow> tables_state" where
  "extract_structured_tables p =
     tables_loop p \<lparr>table_data = [], first_row_var = Unbound, warnings = []\<rparr>
       (enumerate 0 (find_all [''table''] (soup p)))"

subsection \<open>Version references\<close>

definition heading_names :: "string list" where
  "heading_names = [''h1'', ''h2'', ''h3'', ''h4'', ''h5'', ''h6'']"

definition elements_to_check :: "node \<Rightarrow> (string \<times> node list) list" where
  "elements_to_check root =
     [(''table'', find_all [''table''] root),
      (''list'', find_all [''ul'', ''ol''] root),
      (''heading'', find_all heading_names root),
      (''paragraph'', find_all [''p''] root)]"

definition version_context :: "string \<Rightarrow> nat \<Rightarrow> string \<Rightarrow> string" where
  "version_context elem_type elem_idx text =
     (if elem_type = ''table'' then ''Table_'' @ str_nat (elem_idx + 1)
      else if elem_type = ''list'' then ''List_'' @ str_nat (elem_idx + 1)
      else if elem_type = ''heading'' then ''Heading: '' @ take 50 text @ ''...''
      else ''Paragraph_'' @ str_nat (elem_idx + 1))"

definition version_record :: "parser \<Rightarrow> string \<Rightarrow> string \<Rightarrow> string \<Rightarrow> string \<Rightarrow> pydict" where
  "version_record p elem_type context text version =
     [(''data_type'', PStr ''version_info''),
      (''source_url'', PStr (url p)),
      (''domain'', PStr (domain p)),
      (''version_number'', PStr version),
      (''context'', PStr context),
      (''element_type'', PStr elem_type),
      (''full_text'', PStr (if length text > 200 then take 200 text @ ''...'' else text))]"

text \<open>The records one pattern adds for one element: \<^verbatim>\<open>versions[:3]\<close> of its matches.\<close>

definition pattern_versions :: "parser \<Rightarrow> string \<Rightarrow> nat \<Rightarrow> string \<Rightarrow> regex \<Rightarrow> pydict list" where
  "pattern_versions p elem_type elem_idx text pattern =
     (let versions = findall pattern text
      in if versions \<noteq> []
         then map (version_record p elem_type (version_context elem_type elem_idx text) text)
                (take 3 versions)
         else [])"

text \<open>
  The body of the inner loop for one element: the loop over the patterns runs for every
  pattern, whatever the earlier patterns found.
\<close>

definition element_versions :: "parser \<Rightarrow> string \<Rightarrow> nat \<times> node \<Rightarrow> pydict list" where
  "element_versions p elem_type ie =
     (let text = cell_text (snd ie)
      in if \<not> is_valid_content text (Some 20) then []
         else concat (map (pattern_versions p elem_type (fst ie) text) version_patterns))"

definition extract_version_information :: "parser \<Rightarrow> pydict list" where
  "extract_version_information p =
     concat (map (\<lambda>(elem_type, elements).
                    concat (map (element_versions p elem_type) (enumerate 0 elements)))
                 (elements_to_check (soup p)))"

subsection \<open>Lists\<close>

text \<open>
  The nodes of a forest in document order, each with the nodes met before it, nearest
  first (\<^verbatim>\<open>.previous_elements\<close>). \<open>earlier\<close> holds the nodes met before the forest.
\<close>

fun walk_previous :: "node list \<Rightarrow> node list \<Rightarrow> (node \<times> node list) list" where
  "walk_previous earlier [] = []"
| "walk_previous earlier (Text s # rest) =
     (Text s, earlier) # walk_previous (Text s # earlier) rest"
| "walk_previous earlier (Tag n a cs # rest) =
     (Tag n a cs, earlier) # walk_previous (Tag n a cs # earlier) cs
       @ walk_previous (rev (map fst (walk cs)) @ Tag n a cs # earlier) rest"

text \<open>\<^verbatim>\<open>find_previous(names)\<close>: the nearest earlier tag with one of the names.\<close>

definition find_previous :: "string list \<Rightarrow> node list \<Rightarrow> node option" where
  "find_previous names earlier = List.find (named names) earlier"

definition list_context_of :: "node list \<Rightarrow> string" where
  "list_context_of earlier =
     (case find_previous (heading_names @ [''strong'', ''b'']) earlier of
        Some prev_elem \<Rightarrow> take 100 (cell_text prev_elem)
      | None \<Rightarrow> ''List'')"

definition list_item_record :: "parser \<Rightarrow> string \<Rightarrow> string \<Rightarrow> nat \<Rightarrow> nat \<Rightarrow> string \<Rightarrow> pydict" where
  "list_item_record p context list_type total_items item_idx text =
     [(''data_type'', PStr ''list_item''),
      (''source_url'', PStr (url p)),
      (''domain'', PStr (domain p)),
      (''list_context'', PStr context),
      (''item_index'', PInt (int item_idx)),
      (''content'', PStr text),
      (''list_type'', PStr list_type),
      (''total_items'', PInt (int total_items))]"

definition list_records :: "parser \<Rightarrow> node \<times> node list \<Rightarrow> pydict list" where
  "list_records p lb =
     (let list_elem = fst lb;
          context = list_context_of (snd lb);
          items = find_all [''li''] list_elem
      in concat (map (\<lambda>(item_idx, item).
                        let text = cell_text item
                        in if is_valid_content text None
                           then [list_item_record p context (tag_name list_elem) (length items)
                                   item_idx text]
                           else [])
                     (enumerate 0 items)))"

definition extract_structured_lists :: "parser \<Rightarrow> pydict list" where
  "extract_structured_lists p =
     concat (map (list_records p)
       (filter (\<lambda>(n, earlier). named [''ol'', ''ul''] n)
          (walk_previous [soup p] (contents (soup p)))))"

subsection \<open>Sections\<close>

text \<open>
  The \<^verbatim>\<open>while\<close> loop that gathers the content under a heading. \<open>siblings\<close> starts with
  \<^verbatim>\<open>next_elem\<close> (the empty list stands for \<^verbatim>\<open>None\<close>), \<open>content_limit\<close> counts down from 5.
\<close>

fun gather_content :: "node list \<Rightarrow> nat \<Rightarrow> string list" where
  "gather_content [] content_limit = []"
| "gather_content (next_elem # rest) content_limit =
     (if \<not> (node_truthy next_elem \<and> content_limit > 0) then []
      else let text = cell_text next_elem;
               found = is_valid_content text (Some 30);
               content_limit = (if found then content_limit - 1 else content_limit);
               stop = (case rest of [] \<Rightarrow> False
                       | n # _ \<Rightarrow> node_truthy n \<and> named heading_names n)
           in (if found then [text] else [])
              @ (if stop then [] else gather_content rest content_limit))"

text \<open>\<^verbatim>\<open>' | '.join(parts)\<close>\<close>

fun join_parts :: "string list \<Rightarrow> string" where
  "join_parts [] = []"
| "join_parts [x] = x"
| "join_parts (x # y # ys) = x @ '' | '' @ join_parts (y # ys)"

definition section_records :: "parser \<Rightarrow> node \<times> node list \<Rightarrow> pydict list" where
  "section_records p hs =
     (let heading = fst hs;
          heading_text = cell_text heading
      in if heading_text = [] then []
         else let content_parts = gather_content (snd hs) 5
              in if content_parts \<noteq> []
                 then [[(''data_type'', PStr ''section_content''),
                        (''source_url'', PStr (url p)),
                        (''domain'', PStr (domain p)),
                        (''heading'', PStr heading_text),
                        (''heading_level'', PStr (tag_name heading)),
                        (''content'', PStr (join_parts (take 3 content_parts))),
                        (''content_pieces'', PInt (int (length content_parts)))]]
                 else [])"

definition extract_content_sections :: "parser \<Rightarrow> pydict list" where
  "extract_content_sections p =
     concat (map (section_records p)
       (filter (\<lambda>(n, siblings). named heading_names n) (walk (contents (soup p)))))"

subsection \<open>The extraction pass\<close>

text \<open>
  What lies outside the repository: the HTML parser, \<^verbatim>\<open>urlparse(url).netloc\<close>, Python's
  string hash (salted per process), the clock and the HTTP client.
  \<open>fetch i url\<close> is the result of the \<open>i\<close>-th request, \<open>now i\<close> the clock read by the \<open>i\<close>-th
  extraction pass. The HTML parser and \<^verbatim>\<open>urlparse\<close> can raise: BeautifulSoup when the parser
  rejects the markup, \<^verbatim>\<open>urlparse\<close> on an address it cannot split (an opening bracket in
  the host without the closing one is a \<^verbatim>\<open>ValueError\<close>).
\<close>

record world =
  bs_parse :: "string \<Rightarrow> exn + node"
  netloc :: "string \<Rightarrow> exn + string"
  py_hash :: "string \<Rightarrow> int"
  now :: "nat \<Rightarrow> string"
  fetch :: "nat \<Rightarrow> string \<Rightarrow> exn + string"

text \<open>
  The constructor, statement by statement: the check of the content, the call of
  BeautifulSoup, and \<^verbatim>\<open>urlparse(url).netloc\<close>. None of them is inside a \<^verbatim>\<open>try\<close>.
\<close>

definition StructuredDataParser :: "world \<Rightarrow> string option \<Rightarrow> string \<Rightarrow> exn + parser" where
  "StructuredDataParser w html_content u =
     (case html_content of
        None \<Rightarrow> Inl ValueError
      | Some html \<Rightarrow>
          if html = [] then Inl ValueError
          else (case bs_parse w html of
                  Inl e \<Rightarrow> Inl e
                | Inr root \<Rightarrow>
                    (case netloc w u of
                       Inl e \<Rightarrow> Inl e
                     | Inr d \<Rightarrow> Inr \<lparr>soup = root, url = u, domain = d\<rparr>)))"

text \<open>\<^verbatim>\<open>f"{hash(self.url) % 10000:04d}_{len(all_data)}"\<close>\<close>

definition record_id_of :: "int \<Rightarrow> nat \<Rightarrow> string" where
  "record_id_of h n = format_04d (nat (h mod 10000)) @ ''_'' @ str_nat n"

definition add_metadata :: "string \<Rightarrow> string \<Rightarrow> pydict \<Rightarrow> pydict" where
  "add_metadata timestamp rid record =
     dict_set (dict_set record ''extraction_timestamp'' (PStr timestamp)) ''record_id'' (PStr rid)"

text \<open>
  \<^verbatim>\<open>parse_structured_data\<close>: the records of the four extractors in their fixed order
  (\<open>all_records\<close>), then the loop that stamps each of them with the timestamp of the pass
  and the \<^verbatim>\<open>record_id\<close>. \<open>parse_warnings\<close> are the warnings logged on the way.
\<close>

definition all_records :: "parser \<Rightarrow> pydict list" where
  "all_records p =
     (if extract_tables SCRAPING_CONFIG then table_data (extract_structured_tables p) else [])
     @ (if extract_lists SCRAPING_CONFIG then extract_structured_lists p else [])
     @ (if extract_sections SCRAPING_CONFIG then extract_content_sections p else [])
     @ extract_version_information p"

definition parse_warnings :: "parser \<Rightarrow> warning list" where
  "parse_warnings p =
     (if extract_tables SCRAPING_CONFIG then warnings (extract_structured_tables p) else [])"

definition parse_structured_data :: "parser \<Rightarrow> string \<Rightarrow> int \<Rightarrow> pydict list" where
  "parse_structured_data p timestamp h =
     (let all_data = all_records p
      in map (add_metadata timestamp (record_id_of h (length all_data))) all_data)"

section \<open>FormattedCSVExporter\<close>

text \<open>The five entries every standardized record starts with (\<^verbatim>\<open>_organize_data\<close>).\<close>

definition standardized_base :: "pydict \<Rightarrow> row" where
  "standardized_base r =
     [(''record_id'', Val (dict_get r ''record_id'' (PStr ''''))),
      (''data_type'', Val (dict_get r ''data_type'' (PStr ''unknown''))),
      (''source_url'', Val (dict_get r ''source_url'' (PStr ''''))),
      (''domain'', Val (dict_get r ''domain'' (PStr ''''))),
      (''extraction_timestamp'', Val (dict_get r ''extraction_timestamp'' (PStr '''')))]"

text \<open>
  The dictionary comprehension of the \<^verbatim>\<open>table_data\<close> branch. It is an argument of
  \<^verbatim>\<open>standardized.update\<close>, so it is evaluated while \<^verbatim>\<open>standardized\<close> still holds only
  its five base entries.
\<close>

definition table_additional :: "row \<Rightarrow> pydict \<Rightarrow> pydict" where
  "table_additional standardized r =
     filter (\<lambda>(k, v). \<not> has_key standardized k \<and> k \<notin> set [''table_context'', ''row_index'']) r"

definition unknown_content_fields :: "row \<Rightarrow> pydict \<Rightarrow> pydict" where
  "unknown_content_fields standardized r =
     filter (\<lambda>(k, v). \<not> has_key standardized k \<and> k \<noteq> ''data_type'') r"

text \<open>
  One iteration of the loop of \<^verbatim>\<open>_organize_data\<close>. The only operation that can raise is
  the slice \<^verbatim>\<open>record.get('full_text', '')[:100]\<close>.
\<close>

definition standardize :: "pydict \<Rightarrow> exn + row" where
  "standardize r =
     (let standardized = standardized_base r;
          data_type = dict_get r ''data_type'' (PStr '''')
      in if data_type = PStr ''table_data'' then
           Inr (dict_update standardized
             [(''table_context'', Val (dict_get r ''table_context'' (PStr ''''))),
              (''row_index'', Val (dict_get r ''row_index'' (PStr ''''))),
              (''column_1'', Val (dict_get_val r (dict_get r ''column_1'' (PStr ''column_1'')) (PStr ''''))),
              (''column_2'', Val (dict_get_val r (dict_get r ''column_2'' (PStr ''column_2'')) (PStr ''''))),
              (''column_3'', Val (dict_get_val r (dict_get r ''column_3'' (PStr ''column_3'')) (PStr ''''))),
              (''column_4'', Val (dict_get_val r (dict_get r ''column_4'' (PStr ''column_4'')) (PStr ''''))),
              (''additional_data'', DictStr (table_additional standardized r))])
         else if data_type = PStr ''version_info'' then
           (case slice_to 100 (dict_get r ''full_text'' (PStr '''')) of
              Inl e \<Rightarrow> Inl e
            | Inr full_text \<Rightarrow>
                Inr (dict_update standardized
                  [(''version_number'', Val (dict_get r ''version_number'' (PStr ''''))),
                   (''context'', Val (dict_get r ''context'' (PStr ''''))),
                   (''element_type'', Val (dict_get r ''element_type'' (PStr ''''))),
                   (''full_text'', Val full_text)]))
         else if data_type = PStr ''list_item'' then
           Inr (dict_update standardized
             [(''list_context'', Val (dict_get r ''list_context'' (PStr ''''))),
              (''item_index'', Val (dict_get r ''item_index'' (PStr ''''))),
              (''content'', Val (dict_get r ''content'' (PStr ''''))),
              (''list_type'', Val (dict_get r ''list_type'' (PStr ''''))),
              (''total_items'', Val (dict_get r ''total_items'' (PStr '''')))])
         else if data_type = PStr ''section_content'' then
           Inr (dict_update standardized
             [(''heading'', Val (dict_get r ''heading'' (PStr ''''))),
              (''heading_level'', Val (dict_get r ''heading_level'' (PStr ''''))),
              (''content'', Val (dict_get r ''content'' (PStr ''''))),
              (''content_pieces'', Val (dict_get r ''content_pieces'' (PStr '''')))])
         else
           (let content_fields = unknown_content_fields standardized r
            in Inr (dict_set standardized ''content''
                 (if content_fields \<noteq> [] then DictStr content_fields else Val (PStr '''')))))"

text \<open>\<^verbatim>\<open>_organize_data\<close>: the loop stops at the first record that raises.\<close>

fun organize_data :: "pydict list \<Rightarrow> exn + row list" where
  "organize_data [] = Inr []"
| "organize_data (r # rs) =
     (case standardize r of
        Inl e \<Rightarrow> Inl e
      | Inr s \<Rightarrow> (case organize_data rs of Inl e \<Rightarrow> Inl e | Inr ss \<Rightarrow> Inr (s # ss)))"

text \<open>The column tables of \<^verbatim>\<open>export_formatted_csv\<close>.\<close>

definition base_columns :: "string list" where
  "base_columns = [''record_id'', ''data_type'', ''source_url'', ''domain'', ''extraction_timestamp'']"

definition type_specific_columns :: "(string \<times> string list) list" where
  "type_specific_columns =
     [(''table_data'', [''table_context'', ''row_index'', ''column_1'', ''column_2'', ''column_3'',
                        ''column_4'', ''additional_data'']),
      (''version_info'', [''version_number'', ''context'', ''element_type'', ''full_text'']),
      (''list_item'', [''list_context'', ''item_index'', ''content'', ''list_type'', ''total_items'']),
      (''section_content'', [''heading'', ''heading_level'', ''content'', ''content_pieces''])]"

text \<open>
  \<^verbatim>\<open>all_columns\<close> is a Python set: the base columns, updated with every per-type list.
  \<^verbatim>\<open>sorted(all_columns)\<close> orders it by Python's string comparison, which is the
  lexicographic order of the code points.
\<close>

definition all_columns :: "string set" where
  "all_columns = fold (\<lambda>columns acc. acc \<union> set columns) (map snd type_specific_columns) (set base_columns)"

definition fieldnames :: "string list" where
  "fieldnames = sorted_list_of_set all_columns"

text \<open>\<^verbatim>\<open>{col: record.get(col, '') for col in sorted(all_columns)}\<close>\<close>

definition full_record :: "row \<Rightarrow> row" where
  "full_record r = map (\<lambda>col. (col, dict_get r col (Val (PStr '''')))) fieldnames"

text \<open>
  What a call of \<^verbatim>\<open>export_formatted_csv\<close> leaves behind: nothing, a file (its name, its
  header row and its data rows), or an exception. The warnings it logs are returned
  beside it.
\<close>

record csv_file =
  file_name :: string
  header :: "string list"
  data_rows :: "row list"

datatype outcome = No_file | Wrote csv_file | Raised exn

definition endswith :: "string \<Rightarrow> string \<Rightarrow> bool" where
  "endswith s suffix = (length suffix \<le> length s \<and> drop (length s - length suffix) s = suffix)"

text \<open>
  \<open>can_open\<close> tells whether \<^verbatim>\<open>open(filename, 'w')\<close> succeeds; \<open>data\<close> is \<^verbatim>\<open>self.data\<close>, the
  organized records.
\<close>

definition export_formatted_csv :: "(string \<Rightarrow> bool) \<Rightarrow> row list \<Rightarrow> string \<Rightarrow> warning list \<times> outcome" where
  "export_formatted_csv can_open data filename =
     (let filename = (if \<not> endswith filename ''.csv'' then filename @ ''.csv'' else filename)
      in if data = [] then ([No_data_to_export], No_file)
         else if \<not> can_open filename then ([], Raised (ExportException OSError))
         else ([], Wrote \<lparr>file_name = filename, header = fieldnames,
                            data_rows = map full_record data\<rparr>))"

text \<open>
  The constructor \<^verbatim>\<open>FormattedCSVExporter(data, logger)\<close> organizes the records; an exception
  raised there reaches the caller of the constructor.
\<close>

definition FormattedCSVExporter :: "pydict list \<Rightarrow> exn + row list" where
  "FormattedCSVExporter data = organize_data data"

definition export_records :: "(string \<Rightarrow> bool) \<Rightarrow> pydict list \<Rightarrow> string \<Rightarrow> warning list \<times> outcome" where
  "export_records can_open records filename =
     (case FormattedCSVExporter records of
        Inl e \<Rightarrow> ([], Raised e)
      | Inr data \<Rightarrow> export_formatted_csv can_open data filename)"

section \<open>FormattedScraper\<close>

record stats =
  urls_processed :: nat
  urls_successful :: nat
  urls_failed :: nat
  total_records :: nat

text \<open>
  The body of the \<^verbatim>\<open>try\<close> of \<^verbatim>\<open>scrape_url\<close> for the \<open>i\<close>-th address: fetch, construct the
  parser, extract. It raises when the request fails or the content is empty.
\<close>

definition scrape_body :: "world \<Rightarrow> nat \<Rightarrow> string \<Rightarrow> exn + (pydict list \<times> warning list)" where
  "scrape_body w i u =
     (case fetch w i u of
        Inl e \<Rightarrow> Inl e
      | Inr content \<Rightarrow>
          (case StructuredDataParser w (Some content) u of
             Inl e \<Rightarrow> Inl e
           | Inr p \<Rightarrow> Inr (parse_structured_data p (now w i) (py_hash w u), parse_warnings p)))"

text \<open>\<^verbatim>\<open>scrape_url\<close>: the records, the warnings logged, and the updated counters.\<close>

definition scrape_url :: "world \<Rightarrow> nat \<Rightarrow> string \<Rightarrow> stats \<Rightarrow> pydict list \<times> warning list \<times> stats" where
  "scrape_url w i u st =
     (case scrape_body w i u of
        Inr (data, ws) \<Rightarrow>
          (data, ws, st\<lparr>urls_processed := urls_processed st + 1,
                         urls_successful := urls_successful st + 1,
                         total_records := total_records st + length data\<rparr>)
      | Inl e \<Rightarrow>
          ([], [], st\<lparr>urls_processed := urls_processed st + 1,
                      urls_failed := urls_failed st + 1\<rparr>))"

record url_report =
  report_url :: string
  records_extracted :: nat
  status :: string

record run_state =
  all_data :: "pydict list"
  url_reports :: "url_report list"
  run_stats :: stats
  run_warnings :: "warning list"

text \<open>The loop of \<^verbatim>\<open>run_scraping\<close> over the addresses, from the \<open>i\<close>-th on.\<close>

fun scraping_loop :: "world \<Rightarrow> nat \<Rightarrow> string list \<Rightarrow> run_state \<Rightarrow> run_state" where
  "scraping_loop w i [] rs = rs"
| "scraping_loop w i (u # urls) rs =
     (let (data, ws, st) = scrape_url w i u (run_stats rs)
      in scraping_loop w (i + 1) urls
           \<lparr>all_data = all_data rs @ data,
            url_reports = url_reports rs
              @ [\<lparr>report_url = u, records_extracted = length data,
                   status = (if data \<noteq> [] then ''success'' else ''failed'')\<rparr>],
            run_stats = st,
            run_warnings = run_warnings rs @ ws\<rparr>)"

definition initial_run_state :: run_state where
  "initial_run_state =
     \<lparr>all_data = [], url_reports = [],
      run_stats = \<lparr>urls_processed = 0, urls_successful = 0, urls_failed = 0, total_records = 0\<rparr>,
      run_warnings = []\<rparr>"

text \<open>
  \<^verbatim>\<open>run_scraping\<close> up to its export step: the loop, and the warning when nothing was
  collected. (With data it goes on to \<^verbatim>\<open>_export_results\<close>, whose main file is
  \<open>export_records\<close> above.)
\<close>

definition run_scraping :: "world \<Rightarrow> string list \<Rightarrow> run_state" where
  "run_scraping w urls =
     (let rs = scraping_loop w 0 urls initial_run_state
      in if all_data rs \<noteq> [] then rs
         else rs\<lparr>run_warnings := run_warnings rs @ [No_data_collected]\<rparr>)"

text \<open>
  The per-URL rows of \<^verbatim>\<open>_create_summary_report\<close>. The loop that builds them calls
  \<^verbatim>\<open>urlparse\<close> on each address outside any \<^verbatim>\<open>try\<close>, so it stops at the first address
  \<^verbatim>\<open>urlparse\<close> rejects, and then no row is written.
\<close>

definition url_report_row :: "world \<Rightarrow> url_report \<Rightarrow> exn + pydict" where
  "url_report_row w report =
     (case netloc w (report_url report) of
        Inl e \<Rightarrow> Inl e
      | Inr d \<Rightarrow>
          Inr [(''report_type'', PStr ''URL_REPORT''),
               (''url'', PStr (report_url report)),
               (''records_extracted'', PInt (int (records_extracted report))),
               (''status'', PStr (status report)),
               (''domain'', PStr d)])"

fun url_report_rows :: "world \<Rightarrow> url_report list \<Rightarrow> exn + pydict list" where
  "url_report_rows w [] = Inr []"
| "url_report_rows w (report # reports) =
     (case url_report_row w report of
        Inl e \<Rightarrow> Inl e
      | Inr r \<Rightarrow> (case url_report_rows w reports of Inl e \<Rightarrow> Inl e | Inr rs \<Rightarrow> Inr (r # rs)))"


text \<open>
  The records \<^verbatim>\<open>scrape_url\<close> returns for the \<open>i\<close>-th address: those of the extraction pass,
  or none when the body of its \<^verbatim>\<open>try\<close> raised.
\<close>

definition extracted :: "world \<Rightarrow> nat \<Rightarrow> string \<Rightarrow> pydict list" where
  "extracted w i u = (case scrape_body w i u of Inr (data, ws) \<Rightarrow> data | Inl e \<Rightarrow> [])"

text \<open>The records of one \<^verbatim>\<open>data_type\<close>.\<close>

definition has_type :: "string \<Rightarrow> pydict \<Rightarrow> bool" where
  "has_type t r = (dict_get r ''data_type'' (PStr []) = PStr t)"

text \<open>
  The keys the extractor itself writes into a \<^verbatim>\<open>table_data\<close> record: five when the record
  is created in \<^verbatim>\<open>_extract_structured_tables\<close>, two more in \<^verbatim>\<open>parse_structured_data\<close>.
\<close>

definition table_record_keys :: "string list" where
  "table_record_keys = [''data_type'', ''source_url'', ''table_context'', ''row_index'', ''domain'',
     ''extraction_timestamp'', ''record_id'']"

text \<open>
  The entries of a record under any other key. In a \<^verbatim>\<open>table_data\<close> record they are cells of
  the row, but not always all of them: a cell is stored under its column name whatever
  that name is, so a cell whose column is named like one of the seven keys replaces the
  entry of that key and is not among these.
\<close>

definition other_fields :: "pydict \<Rightarrow> pydict" where
  "other_fields r = filter (\<lambda>(k, v). k \<notin> set table_record_keys) r"

subsection \<open>Sample records\<close>

definition sample_table_record :: pydict where
  "sample_table_record =
     [(''data_type'', PStr ''table_data''), (''source_url'', PStr ''http://example.org/a''),
       (''table_context'', PStr ''Table_1''), (''row_index'', PInt 1), (''domain'', PStr ''example.org''),
       (''Product'', PStr ''Widget''), (''Vendor'', PStr ''Acme Corp''), (''Licence'', PStr ''BSD-3''),
       (''Platform'', PStr ''Linux''), (''Status'', PStr ''stable''),
       (''extraction_timestamp'', PStr ''2024-05-01T10:00:00''), (''record_id'', PStr ''0042_2'')]"

definition sample_list_record :: pydict where
  "sample_list_record =
      [(''data_type'', PStr ''list_item''), (''source_url'', PStr ''http://example.org/a''),
       (''domain'', PStr ''example.org''), (''list_context'', PStr ''List''), (''item_index'', PInt 0),
       (''content'', PStr ''Alpha release''), (''list_type'', PStr ''ul''), (''total_items'', PInt 1),
       (''extraction_timestamp'', PStr ''2024-05-01T10:00:00''), (''record_id'', PStr ''0042_2'')]"

definition sample_file :: csv_file where
  "sample_file = \<lparr>file_name = ''out.csv'',
     header = [''additional_data'', ''column_1'', ''column_2'', ''column_3'', ''column_4'',
      ''content'', ''content_pieces'', ''context'', ''data_type'', ''domain'', ''element_type'',
      ''extraction_timestamp'', ''full_text'', ''heading'', ''heading_level'', ''item_index'',
      ''list_context'', ''list_type'', ''record_id'', ''row_index'', ''source_url'', ''table_context'',
      ''total_items'', ''version_number''],
     data_rows =
        [[(''additional_data'',
           DictStr [(''Product'', PStr ''Widget''), (''Vendor'', PStr ''Acme Corp''),
             (''Licence'', PStr ''BSD-3''), (''Platform'', PStr ''Linux''),
             (''Status'', PStr ''stable'')]),
          (''column_1'', Val (PStr [])), (''column_2'', Val (PStr [])),
          (''column_3'', Val (PStr [])), (''column_4'', Val (PStr [])),
          (''content'', Val (PStr [])), (''content_pieces'', Val (PStr [])),
          (''context'', Val (PStr [])),
          (''data_type'', Val (PStr ''table_data'')),
          (''domain'', Val (PStr ''example.org'')),
          (''element_type'', Val (PStr [])),
          (''extraction_timestamp'', Val (PStr ''2024-05-01T10:00:00'')),
          (''full_text'', Val (PStr [])), (''heading'', Val (PStr [])),
          (''heading_level'', Val (PStr [])),
          (''item_index'', Val (PStr [])),
          (''list_context'', Val (PStr [])), (''list_type'', Val (PStr [])),
          (''record_id'', Val (PStr ''0042_2'')),
          (''row_index'', Val (PInt 1)),
          (''source_url'', Val (PStr ''http://example.org/a'')),
          (''table_context'', Val (PStr ''Table_1'')),
          (''total_items'', Val (PStr [])),
          (''version_number'', Val (PStr []))],
         [(''additional_data'', Val (PStr [])),
          (''column_1'', Val (PStr [])), (''column_2'', Val (PStr [])),
          (''column_3'', Val (PStr [])), (''column_4'', Val (PStr [])),
          (''content'', Val (PStr ''Alpha release'')),
          (''content_pieces'', Val (PStr [])), (''context'', Val (PStr [])),
          (''data_type'', Val (PStr ''list_item'')),
          (''domain'', Val (PStr ''example.org'')),
          (''element_type'', Val (PStr [])),
          (''extraction_timestamp'', Val (PStr ''2024-05-01T10:00:00'')),
          (''full_text'', Val (PStr [])), (''heading'', Val (PStr [])),
          (''heading_level'', Val (PStr [])),
          (''item_index'', Val (PInt 0)),
          (''list_context'', Val (PStr ''List'')),
          (''list_type'', Val (PStr ''ul'')),
          (''record_id'', Val (PStr ''0042_2'')),
          (''row_index'', Val (PStr [])),
          (''source_url'', Val (PStr ''http://example.org/a'')),
          (''table_context'', Val (PStr [])),
          (''total_items'', Val (PInt 1)),
          (''version_number'', Val (PStr []))]]\<rparr>"


subsection \<open>Sample documents\<close>

text \<open>
  \<open>widget_table\<close> is the table of the specification's example: a header row
  \<^verbatim>\<open>Name\<close>, \<^verbatim>\<open>Version\<close> and one data row \<^verbatim>\<open>Widget\<close>, \<^verbatim>\<open>1.2.3\<close>. \<open>thead_table\<close> has an explicit
  header region. \<open>dates_paragraph\<close> mentions three ISO dates and a month with a year.
\<close>

definition document :: "node list \<Rightarrow> node" where
  "document cs = Tag ''[document]'' [] cs"

definition widget_table :: node where
  "widget_table =
     Tag ''table'' []
       [Tag ''tr'' [] [Tag ''th'' [] [Text ''Name''], Tag ''th'' [] [Text ''Version'']],
        Tag ''tr'' [] [Tag ''td'' [] [Text ''Widget''], Tag ''td'' [] [Text ''1.2.3'']]]"

definition sample_parser :: "node \<Rightarrow> parser" where
  "sample_parser root = \<lparr>soup = root, url = ''http://example.org/a'', domain = ''example.org''\<rparr>"

definition thead_table :: node where
  "thead_table =
     Tag ''table'' []
       [Tag ''thead'' [] [Tag ''tr'' [] [Tag ''th'' [] [Text ''Product''], Tag ''th'' [] [Text ''Vendor'']]],
        Tag ''tbody'' [] [Tag ''tr'' [] [Tag ''td'' [] [Text ''Widget''], Tag ''td'' [] [Text ''Acme Corp'']]]]"

definition dates_paragraph :: node where
  "dates_paragraph =
     Tag ''p'' [] [Text ''Released 2024-01-01, 2024-02-01, 2024-03-01 and then the January 2025 update'']"

definition two_item_list :: node where
  "two_item_list = Tag ''ul'' [] [Tag ''li'' [] [Text ''Alpha release''], Tag ''li'' [] [Text ''Gamma release'']]"

definition sample_world :: world where
  "sample_world =
     \<lparr>bs_parse = (\<lambda>html. if html = ''<ul><li>Alpha release</li><li>Gamma release</li></ul>''
                        then Inr (document [two_item_list])
                        else Inr (document [Tag ''div'' [] [Text ''n/a'']])),
      netloc = (\<lambda>u. if u = ''http://[::1'' then Inl ValueError else Inr ''example.org''),
      py_hash = (\<lambda>u. 1042),
      now = (\<lambda>i. ''2024-05-01T10:00:00''),
      fetch = (\<lambda>i u. if u = ''http://example.org/list''
                        then Inr ''<ul><li>Alpha release</li><li>Gamma release</li></ul>''
                      else if u = ''http://example.org/empty'' then Inr ''<div>n/a</div>''
                      else Inl HTTPError)\<rparr>"

definition initial_tables_state :: tables_state where
  "initial_tables_state = \<lparr>table_data = [], first_row_var = Unbound, warnings = []\<rparr>"









section \<open>Properties of the text functions\<close>

text \<open>
  A match of a pattern is at least as long as the sum of what its items consume at least;
  for every pattern of the source that is one character or more.
\<close>

lemma atom_matches_min: "k \<in> set (atom_matches a prev s) \<Longrightarrow> atom_min a \<le> k"
  by (cases a) (auto simp: Let_def Suc_le_eq split: if_splits option.splits)

lemma match_lengths_min:
  "k \<in> set (match_lengths r prev s) \<Longrightarrow> sum_list (map atom_min r) \<le> k"
proof (induction r arbitrary: k prev s)
  case Nil
  then show ?case by simp
next
  case (Cons a r)
  then obtain j m where "j \<in> set (atom_matches a prev s)"
    and "m \<in> set (match_lengths r (prev_after prev s j) (drop j s))" and "k = j + m"
    by auto
  with Cons.IH atom_matches_min show ?case
    by (fastforce intro: add_mono)
qed

lemma source_patterns_consume:
  "\<forall>r \<in> set ([whitespace_run, control_char, citation_marker, spaced_period, alphabetic_word]
       @ version_patterns). 1 \<le> sum_list (map atom_min r)"
  by (simp add: whitespace_run_def control_char_def citation_marker_def spaced_period_def
      alphabetic_word_def version_patterns_def digits1_def dot_def month_names_def)

section \<open>Properties of the exporter\<close>

lemma fieldnames_eq: "fieldnames = [''additional_data'', ''column_1'', ''column_2'', ''column_3'', ''column_4'',
  ''content'', ''content_pieces'', ''context'', ''data_type'', ''domain'', ''element_type'',
  ''extraction_timestamp'', ''full_text'', ''heading'', ''heading_level'', ''item_index'',
  ''list_context'', ''list_type'', ''record_id'', ''row_index'', ''source_url'', ''table_context'',
  ''total_items'', ''version_number'']"
  by code_simp

lemma all_columns_eq:
  "all_columns = set base_columns \<union> set (concat (map snd type_specific_columns))"
  by (auto simp: all_columns_def type_specific_columns_def)

lemma fieldnames_sorted:
  "sorted fieldnames \<and> distinct fieldnames
   \<and> set fieldnames = set base_columns \<union> set (concat (map snd type_specific_columns))"
  by (simp add: fieldnames_def all_columns_eq del: set_concat)




lemma organize_data_length: "organize_data rs = Inr data \<Longrightarrow> length data = length rs"
  by (induction rs arbitrary: data) (auto split: sum.splits)

lemma full_record_keys: "map fst (full_record s) = fieldnames"
  by (simp add: full_record_def comp_def)

lemma full_record_lookup:
  "col \<in> set fieldnames \<Longrightarrow>
     map_of (full_record s) col = Some (case map_of s col of None \<Rightarrow> Val (PStr '''') | Some v \<Rightarrow> v)"
  by (simp add: full_record_def map_of_map_restrict dict_get_def)

lemma sample_export:
  "export_records (\<lambda>_. True) [sample_table_record, sample_list_record] ''out'' = ([], Wrote sample_file)"
  by code_simp













text \<open>
  C6. Whenever the exporter writes a file, whatever the records and their types, the header
  row is one fixed list of 24 names: the base columns and all per-type columns, without
  duplicates, in lexicographic order. Every data row has exactly these columns in this
  order, one row per record, and a column the standardized record lacks holds the empty
  string.
\<close>

theorem export_schema_fixed:
  assumes "export_records can_open records filename = (ws, Wrote f)"
  shows "header f = [''additional_data'', ''column_1'', ''column_2'', ''column_3'', ''column_4'',
      ''content'', ''content_pieces'', ''context'', ''data_type'', ''domain'', ''element_type'',
      ''extraction_timestamp'', ''full_text'', ''heading'', ''heading_level'', ''item_index'',
      ''list_context'', ''list_type'', ''record_id'', ''row_index'', ''source_url'', ''table_context'',
      ''total_items'', ''version_number'']
    \<and> sorted (header f) \<and> distinct (header f)
    \<and> set (header f) = set base_columns \<union> set (concat (map snd type_specific_columns))
    \<and> (\<exists>data. organize_data records = Inr data \<and> length data = length records
          \<and> list_all2 (\<lambda>s row. map fst row = header f
                \<and> (\<forall>col \<in> set (header f). map_of row col =
                      Some (case map_of s col of None \<Rightarrow> Val (PStr '''') | Some v \<Rightarrow> v)))
              data (data_rows f))"
proof -
  from assms obtain data where org: "organize_data records = Inr data"
    and ex: "export_formatted_csv can_open data filename = (ws, Wrote f)"
    by (auto simp: export_records_def FormattedCSVExporter_def split: sum.splits)
  from ex have hdr: "header f = fieldnames" and rows: "data_rows f = map full_record data"
    by (auto simp: export_formatted_csv_def Let_def split: if_splits)
  have "list_all2 (\<lambda>s row. map fst row = header f
                \<and> (\<forall>col \<in> set (header f). map_of row col =
                      Some (case map_of s col of None \<Rightarrow> Val (PStr '''') | Some v \<Rightarrow> v)))
              data (data_rows f)"
    unfolding rows hdr list_all2_map2
    by (rule list_all2_refl) (simp add: full_record_keys full_record_lookup)
  with org hdr fieldnames_sorted show ?thesis
    using organize_data_length [OF org] by (simp add: fieldnames_eq [symmetric] del: set_concat)
qed

theorem export_schema_fixed_witness:
  "export_records (\<lambda>_. True) [sample_table_record, sample_list_record] ''out'' = ([], Wrote sample_file)
   \<and> header sample_file = [''additional_data'', ''column_1'', ''column_2'', ''column_3'', ''column_4'',
      ''content'', ''content_pieces'', ''context'', ''data_type'', ''domain'', ''element_type'',
      ''extraction_timestamp'', ''full_text'', ''heading'', ''heading_level'', ''item_index'',
      ''list_context'', ''list_type'', ''record_id'', ''row_index'', ''source_url'', ''table_context'',
      ''total_items'', ''version_number'']"
  using export_schema_fixed [OF sample_export] sample_export by simp

text \<open>
  C8. Exporting an empty record sequence writes no file and raises nothing; the only effect
  is the warning "No data to export". The same holds for \<^verbatim>\<open>export_formatted_csv\<close> called
  on an exporter whose organized data is empty.
\<close>

theorem export_empty_is_noop:
  "export_records can_open [] filename = ([No_data_to_export], No_file)
   \<and> export_formatted_csv can_open [] filename = ([No_data_to_export], No_file)"
  by (simp add: export_records_def FormattedCSVExporter_def export_formatted_csv_def Let_def)






section \<open>Properties of the extractor\<close>

lemma data_rows_loop_bound:
  "snd (data_rows_loop p c hs (Bound fr) rows) = None"
  by (induction rows) (auto simp: Let_def)

lemma data_rows_loop_raised:
  assumes "snd (data_rows_loop p c hs fr rows) = Some e"
  shows "fr = Unbound \<and> fst (data_rows_loop p c hs fr rows) = [] \<and> e = UnboundLocalError ''first_row''"
proof (cases fr)
  case Unbound
  with assms show ?thesis by (cases rows) auto
next
  case (Bound x)
  with assms show ?thesis by (simp add: data_rows_loop_bound)
qed

lemma extract_table_raised:
  assumes "snd (fst (extract_table p fr idx t)) = Some e"
  shows "fst (fst (extract_table p fr idx t)) = [] \<and> snd (extract_table p fr idx t) = fr
         \<and> fr = Unbound \<and> e = UnboundLocalError ''first_row''"
  using assms
  by (auto simp: extract_table_def Let_def dest!: data_rows_loop_raised split: if_splits)

lemma StructuredDataParser_raises:
  "(\<exists>e. StructuredDataParser w content u = Inl e) =
     (content = None \<or> content = Some []
      \<or> (\<exists>html e. content = Some html \<and> (bs_parse w html = Inl e \<or> netloc w u = Inl e)))"
  by (auto simp: StructuredDataParser_def split: option.splits sum.splits)

lemma scrape_body_raises:
  "(scrape_body w i u = Inl e) =
     (fetch w i u = Inl e
      \<or> (\<exists>content. fetch w i u = Inr content \<and> StructuredDataParser w (Some content) u = Inl e))"
  by (auto simp: scrape_body_def split: sum.splits)

lemma tables_loop_append:
  "tables_loop p st (xs @ ys) = tables_loop p (tables_loop p st xs) ys"
  by (induction xs arbitrary: st) auto

lemma table_step_data:
  "table_data (table_step p st it)
     = table_data st @ fst (fst (extract_table p (first_row_var st) (fst it) (snd it)))"
  by (simp add: table_step_def split: prod.splits)

lemma table_step_warnings:
  "warnings (table_step p st it)
     = warnings st @ (case snd (fst (extract_table p (first_row_var st) (fst it) (snd it))) of
                        None \<Rightarrow> [] | Some e \<Rightarrow> [Error_parsing_table (fst it) e])"
  by (simp add: table_step_def split: prod.splits)

lemma table_step_first_row:
  "first_row_var (table_step p st it)
     = (if thead_headers (snd it) = [] then Bound (find_first ''tr'' (snd it)) else first_row_var st)"
  by (simp add: table_step_def extract_table_def Let_def split: prod.splits)

lemma tables_loop_snoc:
  "tables_loop p st (its @ [it]) = table_step p (tables_loop p st its) it"
  by (simp add: tables_loop_append)

lemma tables_loop_collect:
  assumes step: "\<And>s it. proj (table_step p s it) = proj s @ g s it"
  shows "proj (tables_loop p st its)
     = proj st @ concat (map (\<lambda>k. g (tables_loop p st (take k its)) (its ! k)) [0 ..< length its])"
proof (induction its rule: rev_induct)
  case Nil
  show ?case by simp
next
  case (snoc it its)
  have same: "map (\<lambda>k. g (tables_loop p st (take k (its @ [it]))) ((its @ [it]) ! k)) [0 ..< length its]
      = map (\<lambda>k. g (tables_loop p st (take k its)) (its ! k)) [0 ..< length its]"
    by (rule map_cong) (simp_all add: nth_append)
  have "proj (tables_loop p st (its @ [it]))
      = proj (tables_loop p st its) @ g (tables_loop p st its) it"
    by (simp only: tables_loop_snoc step)
  also have "\<dots> = proj st @ concat (map (\<lambda>k. g (tables_loop p st (take k its)) (its ! k))
        [0 ..< length its]) @ g (tables_loop p st its) it"
    by (simp add: snoc.IH)
  also have "\<dots> = proj st @ concat (map (\<lambda>k. g (tables_loop p st (take k (its @ [it])))
        ((its @ [it]) ! k)) [0 ..< length (its @ [it])])"
  proof -
    have whole: "take (length its) (its @ [it]) = its"
      by simp
    show ?thesis
      by (simp add: same whole del: take_append)
  qed
  finally show ?case .
qed

lemma tables_loop_data:
  "table_data (tables_loop p st its)
     = table_data st @ concat (map (\<lambda>k. fst (fst (extract_table p
           (first_row_var (tables_loop p st (take k its))) (fst (its ! k)) (snd (its ! k)))))
         [0 ..< length its])"
  by (rule tables_loop_collect
        [where proj = table_data
           and g = "\<lambda>s it. fst (fst (extract_table p (first_row_var s) (fst it) (snd it)))"])
     (rule table_step_data)

lemma tables_loop_warnings:
  "warnings (tables_loop p st its)
     = warnings st @ concat (map (\<lambda>k. case snd (fst (extract_table p
           (first_row_var (tables_loop p st (take k its))) (fst (its ! k)) (snd (its ! k)))) of
             None \<Rightarrow> [] | Some e \<Rightarrow> [Error_parsing_table (fst (its ! k)) e])
         [0 ..< length its])"
  by (rule tables_loop_collect
        [where proj = warnings
           and g = "\<lambda>s it. case snd (fst (extract_table p (first_row_var s) (fst it) (snd it))) of
                      None \<Rightarrow> [] | Some e \<Rightarrow> [Error_parsing_table (fst it) e]"])
     (rule table_step_warnings)

lemma map_of_dict_set_same: "map_of (dict_set d k v) k = Some v"
  by (induction d) auto

lemma dict_get_set_same: "dict_get (dict_set d k v) k dflt = v"
  by (simp add: dict_get_def map_of_dict_set_same)

lemma widget_records:
  "all_records \<lparr>soup = document [widget_table], url = u, domain = d\<rparr>
     = [[(''data_type'', PStr ''table_data''), (''source_url'', PStr u),
         (''table_context'', PStr ''Table_1''), (''row_index'', PInt 1),
         (''domain'', PStr d), (''Name'', PStr ''Widget'')]]"
  by code_simp

text \<open>
  C1, as the code has it. For the document whose only table has the header row \<^verbatim>\<open>Name\<close>,
  \<^verbatim>\<open>Version\<close> and the single data row \<^verbatim>\<open>Widget\<close>, \<^verbatim>\<open>1.2.3\<close>, extraction produces exactly one
  \<^verbatim>\<open>table_data\<close> record, and its cells are \<^verbatim>\<open>{"Name": "Widget"}\<close>: the cell \<^verbatim>\<open>1.2.3\<close> is
  cleaned to \<^verbatim>\<open>1. 2. 3\<close>, has no alphabetic token of two letters, fails
  \<^verbatim>\<open>_is_valid_content\<close> and is left out. This holds for every address, timestamp and hash.
\<close>

theorem widget_table_row_fields:
  "map other_fields (filter (has_type ''table_data'')
       (parse_structured_data \<lparr>soup = document [widget_table], url = u, domain = d\<rparr> t h))
     = [[(''Name'', PStr ''Widget'')]]"
  by (simp add: parse_structured_data_def widget_records Let_def add_metadata_def has_type_def
        dict_get_def other_fields_def table_record_keys_def)

text \<open>
  C1 as stated fails on that document: the cells of the one \<^verbatim>\<open>table_data\<close> record are not
  \<^verbatim>\<open>{"Name": "Widget", "Version": "1.2.3"}\<close>, and there is no \<^verbatim>\<open>version_info\<close> record at
  all (the text of the table is cleaned to \<^verbatim>\<open>NameVersionWidget1. 2. 3\<close> before the version
  patterns are tried, and none of them matches it).
\<close>

theorem widget_table_counterexample:
  "map other_fields (filter (has_type ''table_data'')
       (parse_structured_data (sample_parser (document [widget_table])) ''2024-05-01T10:00:00'' 1042))
     \<noteq> [[(''Name'', PStr ''Widget''), (''Version'', PStr ''1.2.3'')]]
   \<and> filter (has_type ''version_info'')
       (parse_structured_data (sample_parser (document [widget_table])) ''2024-05-01T10:00:00'' 1042)
     = []"
  by (simp add: sample_parser_def parse_structured_data_def widget_records Let_def add_metadata_def
        has_type_def dict_get_def other_fields_def table_record_keys_def)

text \<open>
  C2 at the failing input: a document whose first table names its columns in a \<^verbatim>\<open>thead\<close>.
  The headers come from the \<^verbatim>\<open>thead\<close>, so \<open>first_row\<close> is never assigned; the row loop reads
  it at the first data row, the \<^verbatim>\<open>UnboundLocalError\<close> is caught by the handler of the table
  loop, and the table yields a warning and no record.
\<close>

theorem thead_table_is_skipped:
  "extract_structured_tables \<lparr>soup = document [thead_table], url = u, domain = d\<rparr>
     = \<lparr>table_data = [], first_row_var = Unbound,
         warnings = [Error_parsing_table 0 (UnboundLocalError ''first_row'')]\<rparr>"
  by code_simp

text \<open>
  What the code bounds: at most three records for each pattern and element, so at most
  fifteen for an element.
\<close>

lemma pattern_versions_le: "length (pattern_versions p t i s pat) \<le> 3"
  by (simp add: pattern_versions_def Let_def)

lemma concat_length_le:
  "(\<And>x. x \<in> set xs \<Longrightarrow> length (f x) \<le> n) \<Longrightarrow> length (concat (map f xs)) \<le> n * length xs"
  by (induction xs) (auto simp: add_le_mono)

lemma element_versions_le: "length (element_versions p t ie) \<le> 15"
proof -
  have "length (concat (map (pattern_versions p t (fst ie) s) version_patterns))
          \<le> 3 * length version_patterns" for s
    by (rule concat_length_le) (rule pattern_versions_le)
  then show ?thesis
    by (simp add: element_versions_def Let_def version_patterns_def)
qed

text \<open>
  C3 at the failing input: one paragraph with three ISO dates and one month-year phrase.
  \<^verbatim>\<open>versions[:3]\<close> bounds the matches of each pattern, not of the element: the date pattern
  adds three records and the month pattern a fourth, all for \<^verbatim>\<open>Paragraph_1\<close>.
\<close>

theorem four_versions_for_one_paragraph:
  "map (\<lambda>r. (dict_get r ''context'' (PStr []), dict_get r ''version_number'' (PStr [])))
     (extract_version_information \<lparr>soup = document [dates_paragraph], url = u, domain = d\<rparr>)
   = [(PStr ''Paragraph_1'', PStr ''2024-01-01''), (PStr ''Paragraph_1'', PStr ''2024-02-01''),
      (PStr ''Paragraph_1'', PStr ''2024-03-01''), (PStr ''Paragraph_1'', PStr ''January 2025'')]"
  by code_simp

text \<open>
  C5, what the code does: every record of a run gets the same \<^verbatim>\<open>record_id\<close>, built from
  the hash of the address and the number of records of the run (\<^verbatim>\<open>len(all_data)\<close>), not
  from the record's own position.
\<close>

theorem record_id_shared_by_all_records:
  "map (\<lambda>r. dict_get r ''record_id'' (PStr [])) (parse_structured_data p t h)
     = replicate (length (all_records p)) (PStr (record_id_of h (length (all_records p))))"
  by (simp add: parse_structured_data_def Let_def add_metadata_def dict_get_set_same comp_def
        map_replicate_const)


lemma two_item_list_records:
  "length (all_records (sample_parser (document [two_item_list]))) = 2"
  by code_simp

lemma sample_record_id: "record_id_of 1042 2 = ''1042_2''"
  by code_simp

theorem record_id_shared_by_all_records_witness:
  "map (\<lambda>r. dict_get r ''record_id'' (PStr []))
     (parse_structured_data (sample_parser (document [two_item_list])) ''2024-05-01T10:00:00'' 1042)
   = [PStr ''1042_2'', PStr ''1042_2'']"
proof -
  have two: "replicate 2 x = [x, x]" for x :: pyval
    by (simp add: numeral_2_eq_2)
  show ?thesis
    using record_id_shared_by_all_records
      [of "sample_parser (document [two_item_list])" "''2024-05-01T10:00:00''" 1042]
    by (simp only: two_item_list_records sample_record_id two)
qed

text \<open>
  C7, as the code has it. The constructor raises when the content is absent or empty, when
  BeautifulSoup rejects the markup, or when \<^verbatim>\<open>urlparse\<close> rejects the address, and in no other
  case; the body of \<^verbatim>\<open>scrape_url\<close> raises only when the request or the constructor does, so
  the extraction pass of a constructed parser lets no exception out. A table whose
  processing raises adds no record and leaves \<open>first_row\<close> as it was. The table loop
  handles every table whatever happened before it: \<^verbatim>\<open>table_data\<close> is, in order, what each
  table yields in the state the loop reaches it in, and the warnings are one for each table
  that raised.
\<close>

theorem extractor_raises_only_in_constructor:
  "((\<exists>e. StructuredDataParser w content u = Inl e) =
       (content = None \<or> content = Some []
        \<or> (\<exists>html e. content = Some html \<and> (bs_parse w html = Inl e \<or> netloc w u = Inl e))))
   \<and> ((scrape_body w i u = Inl e') =
       (fetch w i u = Inl e'
        \<or> (\<exists>c. fetch w i u = Inr c \<and> StructuredDataParser w (Some c) u = Inl e')))
   \<and> (snd (fst (extract_table p fr idx t)) = Some e \<longrightarrow>
         fst (fst (extract_table p fr idx t)) = [] \<and> snd (extract_table p fr idx t) = fr)
   \<and> table_data (tables_loop p st its)
       = table_data st @ concat (map (\<lambda>k. fst (fst (extract_table p
           (first_row_var (tables_loop p st (take k its))) (fst (its ! k)) (snd (its ! k)))))
         [0 ..< length its])
   \<and> warnings (tables_loop p st its)
       = warnings st @ concat (map (\<lambda>k. case snd (fst (extract_table p
           (first_row_var (tables_loop p st (take k its))) (fst (its ! k)) (snd (its ! k)))) of
             None \<Rightarrow> [] | Some e \<Rightarrow> [Error_parsing_table (fst (its ! k)) e])
         [0 ..< length its])
   \<and> first_row_var (table_step p st it)
       = (if thead_headers (snd it) = [] then Bound (find_first ''tr'' (snd it))
          else first_row_var st)"
  using StructuredDataParser_raises [of w content u] scrape_body_raises [of w i u e']
    extract_table_raised [of p fr idx t e] tables_loop_data [of p st its]
    tables_loop_warnings [of p st its] table_step_first_row [of p st it]
  by blast

lemma thead_raises:
  "snd (fst (extract_table (sample_parser (document [thead_table, widget_table])) Unbound 0 thead_table))
     = Some (UnboundLocalError ''first_row'')"
  by code_simp

lemma thead_then_widget:
  "extract_structured_tables (sample_parser (document [thead_table, widget_table]))
     = \<lparr>table_data = [[(''data_type'', PStr ''table_data''),
                        (''source_url'', PStr ''http://example.org/a''),
                        (''table_context'', PStr ''Table_2''), (''row_index'', PInt 1),
                        (''domain'', PStr ''example.org''), (''Name'', PStr ''Widget'')]],
         first_row_var = Bound (Some (Tag ''tr'' [] [Tag ''th'' [] [Text ''Name''],
                                                     Tag ''th'' [] [Text ''Version'']])),
         warnings = [Error_parsing_table 0 (UnboundLocalError ''first_row'')]\<rparr>"
  by code_simp

theorem extractor_raises_only_in_constructor_witness:
  "snd (fst (extract_table (sample_parser (document [thead_table, widget_table])) Unbound 0 thead_table))
     = Some (UnboundLocalError ''first_row'')
   \<and> fst (fst (extract_table (sample_parser (document [thead_table, widget_table])) Unbound 0
         thead_table)) = []
   \<and> table_data (extract_structured_tables (sample_parser (document [thead_table, widget_table])))
       = [[(''data_type'', PStr ''table_data''),
           (''source_url'', PStr ''http://example.org/a''),
           (''table_context'', PStr ''Table_2''), (''row_index'', PInt 1),
           (''domain'', PStr ''example.org''), (''Name'', PStr ''Widget'')]]
   \<and> warnings (extract_structured_tables (sample_parser (document [thead_table, widget_table])))
       = [Error_parsing_table 0 (UnboundLocalError ''first_row'')]"
  using extractor_raises_only_in_constructor
    [of sample_world None "''http://example.org/a''" 0 ValueError
        "sample_parser (document [thead_table, widget_table])" Unbound 0 thead_table
        "UnboundLocalError ''first_row''" initial_tables_state
        "enumerate 0 [thead_table, widget_table]" "(0, thead_table)"]
    thead_raises
  by (simp add: thead_then_widget)

text \<open>
  C7 as stated fails: with the content \<^verbatim>\<open><p>x</p>\<close>, which is not empty, and the address
  \<^verbatim>\<open>http://[::1\<close>, which \<^verbatim>\<open>urlparse\<close> rejects (\<^verbatim>\<open>ValueError\<close>: the bracket of the host is not
  closed), the constructor raises.
\<close>

theorem constructor_raises_on_rejected_address:
  "StructuredDataParser sample_world (Some ''<p>x</p>'') ''http://[::1'' = Inl ValueError"
  by code_simp

section \<open>Properties of the scraper\<close>

lemma scraping_loop_reports:
  "url_reports (scraping_loop w i urls rs) =
     url_reports rs @ map (\<lambda>(j, u). \<lparr>report_url = u,
         records_extracted = length (fst (scrape_url w j u st)),
         status = (if fst (scrape_url w j u st) \<noteq> [] then ''success'' else ''failed'')\<rparr>)
       (enumerate i urls)"
proof (induction urls arbitrary: i rs)
  case Nil
  show ?case by simp
next
  case (Cons u urls)
  have indep: "fst (scrape_url w i u (run_stats rs)) = fst (scrape_url w i u st)"
    by (simp add: scrape_url_def split: sum.splits prod.splits)
  show ?case
    by (simp add: Cons.IH Let_def indep [symmetric] split: prod.splits)
qed

lemma fst_scrape_url: "fst (scrape_url w i u st) = extracted w i u"
  by (simp add: scrape_url_def extracted_def split: sum.splits prod.splits)

lemma run_scraping_reports:
  "url_reports (run_scraping w urls) =
     map (\<lambda>(j, u). \<lparr>report_url = u, records_extracted = length (extracted w j u),
            status = (if extracted w j u \<noteq> [] then ''success'' else ''failed'')\<rparr>)
       (enumerate 0 urls)"
  using scraping_loop_reports [of w 0 urls initial_run_state undefined]
  by (simp add: run_scraping_def Let_def fst_scrape_url initial_run_state_def)

lemma url_report_rows_nth:
  "url_report_rows w reports = Inr rows \<Longrightarrow> i < length reports \<Longrightarrow>
     length rows = length reports
     \<and> dict_get (rows ! i) ''status'' (PStr []) = PStr (status (reports ! i))"
proof (induction reports arbitrary: rows i)
  case Nil
  then show ?case by simp
next
  case (Cons r reports)
  from Cons.prems(1) obtain x xs where x: "url_report_row w r = Inr x"
    and xs: "url_report_rows w reports = Inr xs" and rows: "rows = x # xs"
    by (auto split: sum.splits)
  from x have st: "dict_get x ''status'' (PStr []) = PStr (status r)"
    by (auto simp: url_report_row_def dict_get_def split: sum.splits)
  show ?case
  proof (cases i)
    case 0
    with st rows Cons.IH [OF xs] xs show ?thesis
      by (cases reports) (auto split: sum.splits)
  next
    case (Suc j)
    with Cons.prems(2) Cons.IH [OF xs, of j] rows show ?thesis by simp
  qed
qed

lemma sample_run_reports:
  "url_reports (run_scraping sample_world [''http://example.org/list'', ''http://example.org/empty''])
     = [\<lparr>report_url = ''http://example.org/list'', records_extracted = 2, status = ''success''\<rparr>,
        \<lparr>report_url = ''http://example.org/empty'', records_extracted = 0, status = ''failed''\<rparr>]"
  by code_simp

lemma sample_run_stats:
  "run_stats (run_scraping sample_world [''http://example.org/list'', ''http://example.org/empty''])
     = \<lparr>urls_processed = 2, urls_successful = 2, urls_failed = 0, total_records = 2\<rparr>"
  by code_simp

lemma sample_empty_body:
  "scrape_body sample_world 1 ''http://example.org/empty'' = Inr ([], [])"
  by code_simp

lemma url_report_rows_built:
  "(\<exists>rows. url_report_rows w reports = Inr rows)
     = (\<forall>r \<in> set reports. \<exists>d. netloc w (report_url r) = Inr d)"
proof (induction reports)
  case Nil
  show ?case by simp
next
  case (Cons r reports)
  have row: "(\<exists>x. url_report_row w r = Inr x) = (\<exists>d. netloc w (report_url r) = Inr d)"
    by (auto simp: url_report_row_def split: sum.splits)
  have "(\<exists>rows. url_report_rows w (r # reports) = Inr rows)
      = ((\<exists>x. url_report_row w r = Inr x) \<and> (\<exists>xs. url_report_rows w reports = Inr xs))"
    by (auto split: sum.splits)
  with row Cons.IH show ?case by simp
qed

lemma run_scraping_report_urls: "map report_url (url_reports (run_scraping w urls)) = urls"
  by (simp add: run_scraping_reports comp_def case_prod_beta map_snd_enumerate)

lemma sample_run_rows:
  "url_report_rows sample_world (url_reports
       (run_scraping sample_world [''http://example.org/list'', ''http://example.org/empty'']))
     = Inr [[(''report_type'', PStr ''URL_REPORT''), (''url'', PStr ''http://example.org/list''),
             (''records_extracted'', PInt 2), (''status'', PStr ''success''),
             (''domain'', PStr ''example.org'')],
            [(''report_type'', PStr ''URL_REPORT''), (''url'', PStr ''http://example.org/empty''),
             (''records_extracted'', PInt 0), (''status'', PStr ''failed''),
             (''domain'', PStr ''example.org'')]]"
  by code_simp

text \<open>
  C10. The report of the \<open>i\<close>-th address has status \<^verbatim>\<open>success\<close> exactly when at least one
  record was extracted from it, and \<^verbatim>\<open>failed\<close> exactly when none was. The per-URL rows of the
  summary report are built exactly when \<^verbatim>\<open>urlparse\<close> accepts every address, there is then one
  row for each address, and the row of the \<open>i\<close>-th address carries that status. In particular
  an address that is fetched and parsed without any error and yields no record is reported
  \<^verbatim>\<open>failed\<close>.
\<close>

theorem url_status_success_iff_records:
  assumes "i < length urls"
  shows "length (url_reports (run_scraping w urls)) = length urls
     \<and> report_url (url_reports (run_scraping w urls) ! i) = urls ! i
     \<and> records_extracted (url_reports (run_scraping w urls) ! i) = length (extracted w i (urls ! i))
     \<and> (status (url_reports (run_scraping w urls) ! i) = ''success'') = (extracted w i (urls ! i) \<noteq> [])
     \<and> (status (url_reports (run_scraping w urls) ! i) = ''failed'') = (extracted w i (urls ! i) = [])
     \<and> ((\<exists>rows. url_report_rows w (url_reports (run_scraping w urls)) = Inr rows)
          = (\<forall>u \<in> set urls. \<exists>d. netloc w u = Inr d))
     \<and> (\<forall>rows. url_report_rows w (url_reports (run_scraping w urls)) = Inr rows
           \<longrightarrow> length rows = length urls
             \<and> dict_get (rows ! i) ''status'' (PStr [])
               = PStr (status (url_reports (run_scraping w urls) ! i)))
     \<and> (\<forall>ws. scrape_body w i (urls ! i) = Inr ([], ws)
           \<longrightarrow> status (url_reports (run_scraping w urls) ! i) = ''failed'')"
proof -
  have len: "length (url_reports (run_scraping w urls)) = length urls"
    by (simp add: run_scraping_reports)
  have rows: "length rows = length urls \<and> dict_get (rows ! i) ''status'' (PStr [])
      = PStr (status (url_reports (run_scraping w urls) ! i))"
    if "url_report_rows w (url_reports (run_scraping w urls)) = Inr rows" for rows
    using url_report_rows_nth [OF that, of i] assms len by simp
  have "(\<forall>r \<in> set (url_reports (run_scraping w urls)). \<exists>d. netloc w (report_url r) = Inr d)
      = (\<forall>u \<in> set (map report_url (url_reports (run_scraping w urls))). \<exists>d. netloc w u = Inr d)"
    by simp
  then have built: "(\<exists>rows. url_report_rows w (url_reports (run_scraping w urls)) = Inr rows)
          = (\<forall>u \<in> set urls. \<exists>d. netloc w u = Inr d)"
    by (simp only: url_report_rows_built run_scraping_report_urls)
  have rest: "report_url (url_reports (run_scraping w urls) ! i) = urls ! i
     \<and> records_extracted (url_reports (run_scraping w urls) ! i) = length (extracted w i (urls ! i))
     \<and> (status (url_reports (run_scraping w urls) ! i) = ''success'') = (extracted w i (urls ! i) \<noteq> [])
     \<and> (status (url_reports (run_scraping w urls) ! i) = ''failed'') = (extracted w i (urls ! i) = [])
     \<and> (\<forall>ws. scrape_body w i (urls ! i) = Inr ([], ws)
           \<longrightarrow> status (url_reports (run_scraping w urls) ! i) = ''failed'')"
    using assms by (auto simp: run_scraping_reports nth_enumerate_eq extracted_def)
  from len rows built rest show ?thesis by blast
qed

theorem url_status_success_iff_records_witness:
  "(1::nat) < length [''http://example.org/list'', ''http://example.org/empty'']
   \<and> scrape_body sample_world 1 ''http://example.org/empty'' = Inr ([], [])
   \<and> status (url_reports
         (run_scraping sample_world [''http://example.org/list'', ''http://example.org/empty'']) ! 1)
       = ''failed''
   \<and> extracted sample_world 1 ''http://example.org/empty'' = []
   \<and> urls_successful (run_stats
         (run_scraping sample_world [''http://example.org/list'', ''http://example.org/empty''])) = 2
   \<and> url_report_rows sample_world (url_reports
       (run_scraping sample_world [''http://example.org/list'', ''http://example.org/empty'']))
     = Inr [[(''report_type'', PStr ''URL_REPORT''), (''url'', PStr ''http://example.org/list''),
             (''records_extracted'', PInt 2), (''status'', PStr ''success''),
             (''domain'', PStr ''example.org'')],
            [(''report_type'', PStr ''URL_REPORT''), (''url'', PStr ''http://example.org/empty''),
             (''records_extracted'', PInt 0), (''status'', PStr ''failed''),
             (''domain'', PStr ''example.org'')]]"
proof -
  have h: "(1::nat) < length [''http://example.org/list'', ''http://example.org/empty'']"
    by simp
  from url_status_success_iff_records [OF h, of sample_world]
  show ?thesis
    using sample_empty_body sample_run_stats sample_run_rows by (simp add: sample_run_reports)
qed

end
